theory Spec2Isabelle
  imports Complex_Main "HOL-Library.Sublist"
begin

section \<open>JavaScript values\<close>

text \<open>
  The plugin receives its configuration as an \<^verbatim>\<open>unknown\<close> value and the body of the
  HTTP response as whatever \<^verbatim>\<open>response.json()\<close> produced; neither is validated, so both
  are modelled as untyped JavaScript values.

  A JavaScript number is a double. The program only compares numbers with \<open>1\<close>, \<open>50\<close> and
  \<open>0\<close> and prints them, so a finite number is modelled by the rational it denotes (every
  finite double is a rational; \<open>-0\<close> and \<open>0\<close> are not distinguished), next to the three
  non-finite values.
\<close>

datatype jsnum = Num rat | NaN | PosInfinity | NegInfinity

datatype jsval =
    JUndefined
  | JNull
  | JBool bool
  | JNum jsnum
  | JStr string
  | JArr "jsval list"
  | JObj "(string \<times> jsval) list"
  | JFunction string

text \<open>\<^verbatim>\<open>typeof v\<close>.\<close>

fun typeof :: "jsval \<Rightarrow> string" where
  "typeof JUndefined = ''undefined''"
| "typeof JNull = ''object''"
| "typeof (JBool b) = ''boolean''"
| "typeof (JNum n) = ''number''"
| "typeof (JStr s) = ''string''"
| "typeof (JArr xs) = ''object''"
| "typeof (JObj ps) = ''object''"
| "typeof (JFunction f) = ''function''"

text \<open>\<^verbatim>\<open>Array.isArray(v)\<close>.\<close>

fun isArray :: "jsval \<Rightarrow> bool" where
  "isArray (JArr xs) = True"
| "isArray v = False"

text \<open>Truthiness, as tested by \<^verbatim>\<open>!v\<close>, \<^verbatim>\<open>if (v)\<close> and \<^verbatim>\<open>v && e\<close>.\<close>

fun truthy :: "jsval \<Rightarrow> bool" where
  "truthy JUndefined = False"
| "truthy JNull = False"
| "truthy (JBool b) = b"
| "truthy (JNum (Num r)) = (r \<noteq> 0)"
| "truthy (JNum NaN) = False"
| "truthy (JNum PosInfinity) = True"
| "truthy (JNum NegInfinity) = True"
| "truthy (JStr s) = (s \<noteq> [])"
| "truthy (JArr xs) = True"
| "truthy (JObj ps) = True"
| "truthy (JFunction f) = True"

text \<open>\<^verbatim>\<open>n >= r\<close> and \<^verbatim>\<open>n <= r\<close> for a finite \<open>r\<close>; every comparison with \<open>NaN\<close> is false.\<close>

fun num_ge :: "jsnum \<Rightarrow> rat \<Rightarrow> bool" where
  "num_ge (Num x) r = (r \<le> x)"
| "num_ge NaN r = False"
| "num_ge PosInfinity r = True"
| "num_ge NegInfinity r = False"

fun num_le :: "jsnum \<Rightarrow> rat \<Rightarrow> bool" where
  "num_le (Num x) r = (x \<le> r)"
| "num_le NaN r = False"
| "num_le PosInfinity r = False"
| "num_le NegInfinity r = True"

text \<open>
  Reading a property \<^verbatim>\<open>v.k\<close> of a value that is neither \<^verbatim>\<open>null\<close> nor \<^verbatim>\<open>undefined\<close>.
  An object yields its own property or \<^verbatim>\<open>undefined\<close>; an array has \<^verbatim>\<open>length\<close> and the
  method \<^verbatim>\<open>map\<close>; a string has \<^verbatim>\<open>length\<close> and the method \<^verbatim>\<open>link\<close>
  (\<^verbatim>\<open>String.prototype.link\<close>). The table is exact for the property names this program
  reads: \<^verbatim>\<open>enabled\<close>, \<^verbatim>\<open>apiKey\<close>, \<^verbatim>\<open>defaultSearchEngine\<close>, \<^verbatim>\<open>defaultCount\<close>,
  \<^verbatim>\<open>error\<close>, \<^verbatim>\<open>message\<close>, \<^verbatim>\<open>search_result\<close>, \<^verbatim>\<open>length\<close>, \<^verbatim>\<open>map\<close>, \<^verbatim>\<open>title\<close>,
  \<^verbatim>\<open>media\<close>, \<^verbatim>\<open>publish_date\<close>, \<^verbatim>\<open>link\<close> and \<^verbatim>\<open>content\<close>. The length of a string
  is used only to tell the empty string from the others. A method read this way is only
  tested for truthiness or printed; the program reads no property of it. The keys of an
  object are distinct; were one repeated, the first would be read.
\<close>

fun member :: "jsval \<Rightarrow> string \<Rightarrow> jsval" where
  "member (JObj ps) k = (case map_of ps k of Some v \<Rightarrow> v | None \<Rightarrow> JUndefined)"
| "member (JArr xs) k =
     (if k = ''length'' then JNum (Num (of_nat (length xs)))
      else if k = ''map'' then JFunction ''map''
      else JUndefined)"
| "member (JStr s) k =
     (if k = ''length'' then JNum (Num (of_nat (length s)))
      else if k = ''link'' then JFunction ''link''
      else JUndefined)"
| "member v k = JUndefined"

text \<open>\<^verbatim>\<open>Object.keys(v)\<close> of an object: its own keys, in order.\<close>

fun keys :: "jsval \<Rightarrow> string list" where
  "keys (JObj ps) = map fst ps"
| "keys v = []"

text \<open>\<^verbatim>\<open>xs.join(sep)\<close> on an array of strings.\<close>

fun join :: "string \<Rightarrow> string list \<Rightarrow> string" where
  "join sep [] = []"
| "join sep [x] = x"
| "join sep (x # y # ys) = x @ sep @ join sep (y # ys)"

section \<open>Plugin configuration\<close>

datatype search_engine = search_std | search_pro | search_pro_sogou | search_pro_quark

fun engine_name :: "search_engine \<Rightarrow> string" where
  "engine_name search_std = ''search_std''"
| "engine_name search_pro = ''search_pro''"
| "engine_name search_pro_sogou = ''search_pro_sogou''"
| "engine_name search_pro_quark = ''search_pro_quark''"

record PluginConfig =
  enabled :: "bool option"
  apiKey :: "string option"
  defaultSearchEngine :: "search_engine option"
  defaultCount :: "jsnum option"

text \<open>The object \<^verbatim>\<open>{}\<close>: every field reads as \<^verbatim>\<open>undefined\<close>.\<close>

definition empty_config :: PluginConfig where
  "empty_config =
     \<lparr>enabled = None, apiKey = None, defaultSearchEngine = None, defaultCount = None\<rparr>"

text \<open>
  The four projections of \<^verbatim>\<open>pluginConfigSchema.parse\<close>, shared by \<^verbatim>\<open>index.ts\<close> and
  \<^verbatim>\<open>index.js\<close>; a field whose check fails is \<^verbatim>\<open>undefined\<close>.
\<close>

definition project :: "jsval \<Rightarrow> PluginConfig" where
  "project raw =
     \<lparr>enabled =
        (case member raw ''enabled'' of JBool b \<Rightarrow> Some b | _ \<Rightarrow> None),
      apiKey =
        (case member raw ''apiKey'' of JStr s \<Rightarrow> Some s | _ \<Rightarrow> None),
      defaultSearchEngine =
        (if member raw ''defaultSearchEngine'' = JStr ''search_std'' then Some search_std
         else if member raw ''defaultSearchEngine'' = JStr ''search_pro'' then Some search_pro
         else if member raw ''defaultSearchEngine'' = JStr ''search_pro_sogou''
           then Some search_pro_sogou
         else if member raw ''defaultSearchEngine'' = JStr ''search_pro_quark''
           then Some search_pro_quark
         else None),
      defaultCount =
        (case member raw ''defaultCount'' of
           JNum n \<Rightarrow> if num_ge n 1 \<and> num_le n 50 then Some n else None
         | _ \<Rightarrow> None)\<rparr>"

text \<open>\<^verbatim>\<open>pluginConfigSchema.parse\<close> of \<^verbatim>\<open>index.ts\<close>.\<close>

definition parse :: "jsval \<Rightarrow> PluginConfig" where
  "parse v =
     (if \<not> truthy v \<or> typeof v \<noteq> ''object'' \<or> isArray v then empty_config
      else project v)"

text \<open>
  \<^verbatim>\<open>pluginConfigSchema.parse\<close> of \<^verbatim>\<open>index.js\<close>, which throws on a key outside
  \<^verbatim>\<open>allowedKeys\<close>.
\<close>

datatype js_error = Error string | TypeError string | SyntaxError string

fun message :: "js_error \<Rightarrow> string" where
  "message (Error m) = m"
| "message (TypeError m) = m"
| "message (SyntaxError m) = m"

definition allowedKeys :: "string list" where
  "allowedKeys = [''enabled'', ''apiKey'', ''defaultSearchEngine'', ''defaultCount'']"

definition unknownKeys :: "jsval \<Rightarrow> string list" where
  "unknownKeys cfg = filter (\<lambda>k. k \<notin> set allowedKeys) (keys cfg)"

definition parse_js :: "jsval \<Rightarrow> js_error + PluginConfig" where
  "parse_js v =
     (if \<not> truthy v \<or> typeof v \<noteq> ''object'' \<or> isArray v then Inr empty_config
      else if length (unknownKeys v) > 0
        then Inl (Error (''Unknown config keys: '' @ join '', '' (unknownKeys v)))
      else Inr (project v))"

text \<open>The check the specification words: an integer between 1 and 50 inclusive.\<close>

fun spec_count_ok :: "jsnum \<Rightarrow> bool" where
  "spec_count_ok (Num r) = (r \<in> \<int> \<and> 1 \<le> r \<and> r \<le> 50)"
| "spec_count_ok n = False"

section \<open>Printing\<close>

text \<open>Decimal digits of a natural number, as \<^verbatim>\<open>${index + 1}\<close> and \<^verbatim>\<open>${response.status}\<close> print them.\<close>

definition digit :: "nat \<Rightarrow> char" where
  "digit d = ''0123456789'' ! d"

function show_nat :: "nat \<Rightarrow> string" where
  "show_nat n = (if n < 10 then [digit n] else show_nat (n div 10) @ [digit (n mod 10)])"
  by pat_completeness auto
termination
  by (relation "measure id") auto

declare show_nat.simps [simp del]

definition show_int :: "int \<Rightarrow> string" where
  "show_int i = (if i < 0 then ''-'' @ show_nat (nat (- i)) else show_nat (nat i))"

text \<open>
  \<^verbatim>\<open>Number.prototype.toString\<close>. An integer below \<open>10\<^sup>2\<^sup>1\<close> in magnitude prints as its decimal
  digits. How a double with a fractional part or a larger magnitude prints (shortest digits
  that round-trip) is left to the parameter \<open>fmt\<close>.
\<close>

fun number_toString :: "(rat \<Rightarrow> string) \<Rightarrow> jsnum \<Rightarrow> string" where
  "number_toString fmt (Num r) =
     (if of_int \<lfloor>r\<rfloor> = r \<and> \<bar>r\<bar> < 10 ^ 21 then show_int \<lfloor>r\<rfloor> else fmt r)"
| "number_toString fmt NaN = ''NaN''"
| "number_toString fmt PosInfinity = ''Infinity''"
| "number_toString fmt NegInfinity = ''-Infinity''"

definition NL :: string where
  "NL = [CHR 0x0A]"

definition DQ :: string where
  "DQ = [CHR 0x22]"

definition SQ :: string where
  "SQ = [CHR 0x27]"

section \<open>Exceptions\<close>

text \<open>
  A computation that may throw returns \<open>Inl\<close> of the thrown error. Every value thrown in
  this program is an \<^verbatim>\<open>Error\<close> instance: the one \<^verbatim>\<open>performWebSearch\<close> creates, a
  rejection of \<^verbatim>\<open>fetch\<close> or of \<^verbatim>\<open>response.json()\<close>, or a \<^verbatim>\<open>TypeError\<close> of the engine,
  whose message is written as Node's engine words it.
\<close>

definition and_then :: "js_error + 'a \<Rightarrow> ('a \<Rightarrow> js_error + 'b) \<Rightarrow> js_error + 'b" where
  "and_then x f = (case x of Inl e \<Rightarrow> Inl e | Inr v \<Rightarrow> f v)"

text \<open>\<^verbatim>\<open>try { body } catch (error) { handler }\<close>.\<close>

definition try_catch :: "js_error + 'a \<Rightarrow> (js_error \<Rightarrow> js_error + 'a) \<Rightarrow> js_error + 'a" where
  "try_catch body handler = (case body of Inl e \<Rightarrow> handler e | Inr v \<Rightarrow> Inr v)"

text \<open>\<^verbatim>\<open>v === null || v === undefined\<close>, the test behind \<^verbatim>\<open>??\<close> and \<^verbatim>\<open>?.\<close>.\<close>

fun nullish :: "jsval \<Rightarrow> bool" where
  "nullish JUndefined = True"
| "nullish JNull = True"
| "nullish v = False"

text \<open>\<^verbatim>\<open>v.k\<close>: a \<^verbatim>\<open>TypeError\<close> when \<open>v\<close> is \<^verbatim>\<open>null\<close> or \<^verbatim>\<open>undefined\<close>.\<close>

fun get_prop :: "jsval \<Rightarrow> string \<Rightarrow> js_error + jsval" where
  "get_prop JUndefined k =
     Inl (TypeError (''Cannot read properties of undefined (reading '' @ SQ @ k @ SQ @ '')''))"
| "get_prop JNull k =
     Inl (TypeError (''Cannot read properties of null (reading '' @ SQ @ k @ SQ @ '')''))"
| "get_prop v k = Inr (member v k)"

text \<open>\<^verbatim>\<open>v?.k\<close>.\<close>

definition opt_member :: "jsval \<Rightarrow> string \<Rightarrow> jsval" where
  "opt_member v k = (if nullish v then JUndefined else member v k)"

text \<open>
  \<^verbatim>\<open>${v}\<close> in a template literal, for the values \<^verbatim>\<open>JSON.parse\<close> and \<open>member\<close> produce.
  An array prints its elements joined by commas, \<^verbatim>\<open>null\<close> and \<^verbatim>\<open>undefined\<close> elements as
  the empty string. A parsed object prints through \<^verbatim>\<open>Object.prototype.toString\<close>, unless it
  has an own key \<^verbatim>\<open>toString\<close>: that value is not callable, \<^verbatim>\<open>valueOf\<close> yields no primitive,
  and the conversion throws.
\<close>

fun to_string :: "(rat \<Rightarrow> string) \<Rightarrow> jsval \<Rightarrow> js_error + string"
  and elements_to_strings :: "(rat \<Rightarrow> string) \<Rightarrow> jsval list \<Rightarrow> js_error + string list" where
  "to_string fmt JUndefined = Inr ''undefined''"
| "to_string fmt JNull = Inr ''null''"
| "to_string fmt (JBool b) = Inr (if b then ''true'' else ''false'')"
| "to_string fmt (JNum n) = Inr (number_toString fmt n)"
| "to_string fmt (JStr s) = Inr s"
| "to_string fmt (JFunction f) = Inr (''function '' @ f @ ''() { [native code] }'')"
| "to_string fmt (JObj ps) =
     (if ''toString'' \<in> set (map fst ps)
      then Inl (TypeError ''Cannot convert object to primitive value'')
      else Inr ''[object Object]'')"
| "to_string fmt (JArr xs) =
     and_then (elements_to_strings fmt xs) (\<lambda>ss. Inr (join '','' ss))"
| "elements_to_strings fmt [] = Inr []"
| "elements_to_strings fmt (x # xs) =
     and_then (if nullish x then Inr [] else to_string fmt x) (\<lambda>s.
     and_then (elements_to_strings fmt xs) (\<lambda>ss. Inr (s # ss)))"

section \<open>Tool results\<close>

text \<open>
  The value a tool returns to the host: \<^verbatim>\<open>{content: [{type, text}], details}\<close>, with
  \<^verbatim>\<open>details\<close> either \<^verbatim>\<open>{error, message}\<close> or \<^verbatim>\<open>{query, resultCount, searchEngine}\<close>.
\<close>

record text_block =
  type' :: string
  text' :: string

datatype details =
    ErrorDetails bool string
  | SearchDetails string jsval "search_engine option"

record tool_result =
  content :: "text_block list"
  details :: details

section \<open>Result formatter\<close>

record SearchResultItem =
  title :: string
  content :: string
  link :: string
  media :: "string option"
  icon :: "string option"
  refer :: "string option"
  publish_date :: "string option"

definition separator :: string where
  "separator = NL @ NL @ ''---'' @ NL @ NL"

text \<open>
  The array \<^verbatim>\<open>parts\<close> the callback of \<^verbatim>\<open>results.map\<close> builds for one item, on the typed
  items of \<^verbatim>\<open>index.ts\<close>. \<^verbatim>\<open>if (result.media)\<close> tests truthiness: the field is there and
  is not the empty string.
\<close>

definition parts :: "nat \<Rightarrow> SearchResultItem \<Rightarrow> string list" where
  "parts index result =
     [''['' @ show_nat (index + 1) @ ''] '' @ title result] @
     (case media result of
        Some m \<Rightarrow> if m \<noteq> [] then [''Source: '' @ m] else []
      | None \<Rightarrow> []) @
     (case publish_date result of
        Some d \<Rightarrow> if d \<noteq> [] then [''Published: '' @ d] else []
      | None \<Rightarrow> []) @
     [''URL: '' @ link result] @
     [''Content: '' @ content result]"

definition formatSearchResults :: "SearchResultItem list \<Rightarrow> string" where
  "formatSearchResults results =
     (if length results = 0 then ''No search results found.''
      else join separator
             (map (\<lambda>(index, result). join NL (parts index result)) (enumerate 0 results)))"

text \<open>
  The same function as it runs in \<^verbatim>\<open>index.js\<close> on whatever the response holds:
  \<^verbatim>\<open>execute\<close> passes \<^verbatim>\<open>response.search_result\<close> unchecked.
\<close>

definition parts_js :: "(rat \<Rightarrow> string) \<Rightarrow> nat \<Rightarrow> jsval \<Rightarrow> js_error + string list" where
  "parts_js fmt index result =
     and_then (get_prop result ''title'') (\<lambda>t.
     and_then (to_string fmt t) (\<lambda>ts.
     and_then (get_prop result ''media'') (\<lambda>m.
     and_then (if truthy m
               then and_then (get_prop result ''media'') (\<lambda>m'.
                    and_then (to_string fmt m') (\<lambda>ms. Inr [''Source: '' @ ms]))
               else Inr []) (\<lambda>source.
     and_then (get_prop result ''publish_date'') (\<lambda>d.
     and_then (if truthy d
               then and_then (get_prop result ''publish_date'') (\<lambda>d'.
                    and_then (to_string fmt d') (\<lambda>ds. Inr [''Published: '' @ ds]))
               else Inr []) (\<lambda>published.
     and_then (get_prop result ''link'') (\<lambda>l.
     and_then (to_string fmt l) (\<lambda>ls.
     and_then (get_prop result ''content'') (\<lambda>c.
     and_then (to_string fmt c) (\<lambda>cs.
       Inr ([''['' @ show_nat (index + 1) @ ''] '' @ ts] @ source @ published @
            [''URL: '' @ ls] @ [''Content: '' @ cs])))))))))))"

text \<open>\<^verbatim>\<open>results.map(callback)\<close> on an array, from index \<open>i\<close> on; the first throw ends it.\<close>

fun map_js :: "(rat \<Rightarrow> string) \<Rightarrow> nat \<Rightarrow> jsval list \<Rightarrow> js_error + string list" where
  "map_js fmt i [] = Inr []"
| "map_js fmt i (x # xs) =
     and_then (parts_js fmt i x) (\<lambda>ps.
     and_then (map_js fmt (i + 1) xs) (\<lambda>rest. Inr (join NL ps # rest)))"

definition formatSearchResults_js :: "(rat \<Rightarrow> string) \<Rightarrow> jsval \<Rightarrow> js_error + string" where
  "formatSearchResults_js fmt results =
     and_then (get_prop results ''length'') (\<lambda>len.
       if len = JNum (Num 0) then Inr ''No search results found.''
       else (case results of
               JArr xs \<Rightarrow> and_then (map_js fmt 0 xs) (\<lambda>blocks. Inr (join separator blocks))
             | _ \<Rightarrow> Inl (TypeError ''results.map is not a function'')))"

text \<open>A typed item as the JSON object the API sends for it.\<close>

definition optional :: "string \<Rightarrow> string option \<Rightarrow> (string \<times> jsval) list" where
  "optional k v = (case v of Some s \<Rightarrow> [(k, JStr s)] | None \<Rightarrow> [])"

definition item_json :: "SearchResultItem \<Rightarrow> jsval" where
  "item_json r =
     JObj ([(''title'', JStr (title r)), (''content'', JStr (content r)),
            (''link'', JStr (link r))] @
           optional ''media'' (media r) @ optional ''icon'' (icon r) @
           optional ''refer'' (refer r) @ optional ''publish_date'' (publish_date r))"

section \<open>Search request executor\<close>

datatype recency = oneDay | oneWeek | oneMonth | oneYear | noLimit

fun recency_name :: "recency \<Rightarrow> string" where
  "recency_name oneDay = ''oneDay''"
| "recency_name oneWeek = ''oneWeek''"
| "recency_name oneMonth = ''oneMonth''"
| "recency_name oneYear = ''oneYear''"
| "recency_name noLimit = ''noLimit''"

datatype content_size = medium | high

fun content_size_name :: "content_size \<Rightarrow> string" where
  "content_size_name medium = ''medium''"
| "content_size_name high = ''high''"

text \<open>
  \<^verbatim>\<open>WebSearchParams\<close>: the parameters of one invocation, which the host has validated
  against the parameter schema before it calls \<^verbatim>\<open>execute\<close>.
\<close>

record WebSearchParams =
  query :: string
  search_engine :: "search_engine option"
  count :: "jsnum option"
  search_recency_filter :: "recency option"
  content_size :: "content_size option"
  search_domain_filter :: "string option"

text \<open>
  The object \<^verbatim>\<open>requestBody\<close>. \<^verbatim>\<open>??\<close> replaces an absent field only;
  \<^verbatim>\<open>...(params.search_domain_filter && {...})\<close> adds the key when the filter is truthy.
\<close>

definition requestBody :: "WebSearchParams \<Rightarrow> jsval" where
  "requestBody params =
     JObj ([(''search_query'', JStr (query params)),
            (''search_engine'',
               JStr (engine_name (case search_engine params of Some e \<Rightarrow> e | None \<Rightarrow> search_std))),
            (''search_intent'', JBool False),
            (''count'', JNum (case count params of Some n \<Rightarrow> n | None \<Rightarrow> Num 10)),
            (''search_recency_filter'',
               JStr (recency_name
                 (case search_recency_filter params of Some f \<Rightarrow> f | None \<Rightarrow> noLimit))),
            (''content_size'',
               JStr (content_size_name
                 (case content_size params of Some c \<Rightarrow> c | None \<Rightarrow> medium)))] @
           (case search_domain_filter params of
              Some d \<Rightarrow> if d \<noteq> [] then [(''search_domain_filter'', JStr d)] else []
            | None \<Rightarrow> []))"

text \<open>
  A call of \<^verbatim>\<open>fetch\<close>. \<open>body\<close> is the object handed to \<^verbatim>\<open>JSON.stringify\<close>. Of the
  response the program reads \<^verbatim>\<open>status\<close>, \<^verbatim>\<open>ok\<close> (a status from 200 to 299) and
  \<^verbatim>\<open>json()\<close>, which rejects when the body is not JSON.
\<close>

record http_request =
  url :: string
  http_method :: string
  headers :: "(string \<times> string) list"
  body :: jsval

record http_response =
  status :: nat
  json :: "js_error + jsval"

definition ok :: "http_response \<Rightarrow> bool" where
  "ok response = (200 \<le> status response \<and> status response \<le> 299)"

text \<open>
  What the program takes from its surroundings: the environment variable, the network
  (\<^verbatim>\<open>fetch\<close> resolves to a response or rejects) and the printing of numbers.
\<close>

record runtime =
  env_BIGMODEL_API_KEY :: "string option"
  fetch :: "http_request \<Rightarrow> js_error + http_response"
  number_format :: "rat \<Rightarrow> string"

definition BIGMODEL_API_URL :: string where
  "BIGMODEL_API_URL = ''https://open.bigmodel.cn/api/paas/v4/web_search''"

text \<open>
  \<^verbatim>\<open>performWebSearch\<close> returns what the promise settles to, and the requests it sent.
\<close>

definition performWebSearch ::
  "runtime \<Rightarrow> WebSearchParams \<Rightarrow> string \<Rightarrow> (js_error + jsval) \<times> http_request list" where
  "performWebSearch rt params key =
     (let request =
            \<lparr>url = BIGMODEL_API_URL, http_method = ''POST'',
             headers = [(''Authorization'', ''Bearer '' @ key),
                        (''Content-Type'', ''application/json'')],
             body = requestBody params\<rparr>
      in (and_then (fetch rt request) (\<lambda>response.
            if \<not> ok response then
              (let errorData = (case json response of Inl e \<Rightarrow> JObj [] | Inr v \<Rightarrow> v)
               in and_then (get_prop errorData ''error'') (\<lambda>err.
                    let m = opt_member err ''message'';
                        errorMessage =
                          (if nullish m then JStr (''HTTP '' @ show_nat (status response)) else m)
                    in and_then (to_string (number_format rt) errorMessage) (\<lambda>s.
                         Inl (Error (''BigModel API error: '' @ s)))))
            else json response),
          [request]))"

section \<open>Tool invocation handler\<close>

definition no_key_result :: tool_result where
  "no_key_result =
     \<lparr>tool_result.content =
        [\<lparr>type' = ''text'',
          text' = ''Error: BigModel API key is not configured. Please set it in plugin config (plugins.entries.bigmodel-web-search.config.apiKey) or BIGMODEL_API_KEY environment variable.''\<rparr>],
      details = ErrorDetails True ''API key not configured''\<rparr>"

text \<open>\<^verbatim>\<open>searchParams\<close>: the invocation's value, else the plugin default, else the constant.\<close>

definition searchParams :: "PluginConfig \<Rightarrow> WebSearchParams \<Rightarrow> WebSearchParams" where
  "searchParams pluginConfig params =
     params
       \<lparr>search_engine :=
          Some (case search_engine params of
                  Some e \<Rightarrow> e
                | None \<Rightarrow> (case defaultSearchEngine pluginConfig of
                             Some e \<Rightarrow> e
                           | None \<Rightarrow> search_std)),
        count :=
          Some (case count params of
                  Some n \<Rightarrow> n
                | None \<Rightarrow> (case defaultCount pluginConfig of
                             Some n \<Rightarrow> n
                           | None \<Rightarrow> Num 10))\<rparr>"

text \<open>
  \<^verbatim>\<open>execute(_id, params)\<close> of the tool registered with \<open>pluginConfig\<close>: the value its
  promise settles to (\<open>Inl\<close> would be a rejection) and the requests sent. \<^verbatim>\<open>!apiKey\<close>
  holds for \<^verbatim>\<open>undefined\<close> and for the empty string.
\<close>

definition execute ::
  "runtime \<Rightarrow> PluginConfig \<Rightarrow> string \<Rightarrow> WebSearchParams \<Rightarrow>
     (js_error + tool_result) \<times> http_request list" where
  "execute rt pluginConfig invocation params =
     (case (case apiKey pluginConfig of Some k \<Rightarrow> Some k | None \<Rightarrow> env_BIGMODEL_API_KEY rt) of
        None \<Rightarrow> (Inr no_key_result, [])
      | Some key \<Rightarrow>
          if key = [] then (Inr no_key_result, [])
          else
            (let (outcome, sent) =
                   performWebSearch rt (searchParams pluginConfig params) key
             in (try_catch
                   (and_then outcome (\<lambda>response.
                    and_then (get_prop response ''search_result'') (\<lambda>results.
                    and_then (formatSearchResults_js (number_format rt) results)
                      (\<lambda>formattedResults.
                    and_then (get_prop response ''search_result'') (\<lambda>results'.
                    and_then (get_prop results' ''length'') (\<lambda>resultCount.
                      Inr \<lparr>tool_result.content =
                             [\<lparr>type' = ''text'',
                               text' = ''## Web Search Results for: '' @ DQ @ query params @ DQ @
                                      NL @ NL @ formattedResults\<rparr>],
                           details =
                             SearchDetails (query params) resultCount
                               (search_engine (searchParams pluginConfig params))\<rparr>))))))
                   (\<lambda>error.
                      Inr \<lparr>tool_result.content =
                             [\<lparr>type' = ''text'',
                               text' = ''Error performing web search: '' @ message error\<rparr>],
                           details = ErrorDetails True (message error)\<rparr>),
                 sent)))"

section \<open>Surroundings used in the examples\<close>

text \<open>A network on which every \<^verbatim>\<open>fetch\<close> rejects, and one that answers every request alike.\<close>

definition offline :: runtime where
  "offline =
     \<lparr>env_BIGMODEL_API_KEY = None,
      fetch = (\<lambda>request. Inl (TypeError ''fetch failed'')),
      number_format = (\<lambda>r. [])\<rparr>"

definition answering :: "http_response \<Rightarrow> runtime" where
  "answering response =
     \<lparr>env_BIGMODEL_API_KEY = None,
      fetch = (\<lambda>request. Inr response),
      number_format = (\<lambda>r. [])\<rparr>"

text \<open>The response \<^verbatim>\<open>200 {"search_result": []}\<close> and the invocation \<^verbatim>\<open>{query: q}\<close>.\<close>

definition no_results :: http_response where
  "no_results = \<lparr>status = 200, json = Inr (JObj [(''search_result'', JArr [])])\<rparr>"

definition only_query :: "string \<Rightarrow> WebSearchParams" where
  "only_query q =
     \<lparr>query = q, search_engine = None, count = None, search_recency_filter = None,
      content_size = None, search_domain_filter = None\<rparr>"

section \<open>The formatter as the specification words it\<close>

text \<open>
  The block of the item numbered \<open>n\<close>, counting from 1. \<open>shown\<close> decides whether an
  optional line is emitted: \<open>present\<close> when the field is there, \<open>present_nonempty\<close>
  when it is there and is not the empty string.
\<close>

definition present :: "string option \<Rightarrow> bool" where
  "present v = (v \<noteq> None)"

definition present_nonempty :: "string option \<Rightarrow> bool" where
  "present_nonempty v = (v \<noteq> None \<and> v \<noteq> Some [])"

definition optional_line ::
  "(string option \<Rightarrow> bool) \<Rightarrow> string \<Rightarrow> string option \<Rightarrow> string list" where
  "optional_line shown label v =
     (case v of Some s \<Rightarrow> if shown v then [label @ s] else [] | None \<Rightarrow> [])"

definition spec_block :: "(string option \<Rightarrow> bool) \<Rightarrow> nat \<Rightarrow> SearchResultItem \<Rightarrow> string" where
  "spec_block shown n item =
     join NL ([''['' @ show_nat n @ ''] '' @ title item] @
              optional_line shown ''Source: '' (media item) @
              optional_line shown ''Published: '' (publish_date item) @
              [''URL: '' @ link item] @
              [''Content: '' @ content item])"

definition spec_format :: "(string option \<Rightarrow> bool) \<Rightarrow> SearchResultItem list \<Rightarrow> string" where
  "spec_format shown items =
     (if items = [] then ''No search results found.''
      else join separator
             (map (\<lambda>n. spec_block shown n (items ! (n - 1))) [1..<Suc (length items)]))"

section \<open>Helper lemmas\<close>

lemma not_object_cases:
  "(\<not> truthy v \<or> typeof v \<noteq> ''object'' \<or> isArray v) = (\<forall>raw. v \<noteq> JObj raw)"
  by (cases v) simp_all

lemma map_of_filter_allowed:
  "P k \<Longrightarrow> map_of (filter (\<lambda>(k, v). P k) raw) k = map_of raw k"
  by (induction raw) auto

lemma project_filter:
  "project (JObj (filter (\<lambda>(k, v). k \<in> set allowedKeys) raw)) = project (JObj raw)"
  by (simp add: project_def map_of_filter_allowed allowedKeys_def)

lemma show_nat_Suc_0: "show_nat (Suc 0) = ''1''"
  by (simp add: show_nat.simps digit_def)

lemma show_nat_500: "show_nat 500 = ''500''"
  by (simp add: show_nat.simps digit_def)

text \<open>On typed items the formatter of \<^verbatim>\<open>index.js\<close> computes what the typed one does.\<close>

lemma parts_js_item_json: "parts_js fmt i (item_json r) = Inr (parts i r)"
  by (simp add: parts_js_def item_json_def parts_def optional_def and_then_def
      split: option.splits)

lemma map_js_item_json:
  "map_js fmt i (map item_json rs) =
     Inr (map (\<lambda>(index, result). join NL (parts index result)) (enumerate i rs))"
  by (induction rs arbitrary: i) (simp_all add: parts_js_item_json and_then_def)

lemma formatSearchResults_js_typed:
  "formatSearchResults_js fmt (JArr (map item_json rs)) = Inr (formatSearchResults rs)"
  by (simp add: formatSearchResults_js_def formatSearchResults_def map_js_item_json
      and_then_def)

lemma enumerate_as_index:
  "map (\<lambda>(index, result). f index result) (enumerate 0 xs) =
   map (\<lambda>n. f (n - 1) (xs ! (n - 1))) [1..<Suc (length xs)]"
  by (rule nth_equalityI) (simp_all add: nth_enumerate_eq del: upt_Suc)

lemma parts_spec_block:
  "0 < n \<Longrightarrow> join NL (parts (n - Suc 0) r) = spec_block present_nonempty n r"
  by (simp add: parts_def spec_block_def optional_line_def present_nonempty_def
      split: option.splits)

text \<open>\<^verbatim>\<open>performWebSearch\<close> calls \<^verbatim>\<open>fetch\<close> once, whatever comes back.\<close>

lemma performWebSearch_sent:
  "snd (performWebSearch rt params key) =
     [\<lparr>url = BIGMODEL_API_URL, http_method = ''POST'',
       headers = [(''Authorization'', ''Bearer '' @ key),
                  (''Content-Type'', ''application/json'')],
       body = requestBody params\<rparr>]"
  by (simp add: performWebSearch_def Let_def)

lemma execute_sent:
  assumes "(case apiKey cfg of Some k \<Rightarrow> Some k | None \<Rightarrow> env_BIGMODEL_API_KEY rt) = Some key"
    and "key \<noteq> []"
  shows "snd (execute rt cfg i p) = snd (performWebSearch rt (searchParams cfg p) key)"
  using assms by (simp add: execute_def split: prod.splits)

text \<open>
  \<^verbatim>\<open>execute\<close> reads of the invocation its query, the request body built from it and the
  resolved engine.
\<close>

lemma execute_depends_on:
  assumes "query p = query p'"
    and "requestBody (searchParams cfg p) = requestBody (searchParams cfg p')"
    and "search_engine (searchParams cfg p) = search_engine (searchParams cfg p')"
  shows "execute rt cfg i p = execute rt cfg i p'"
proof -
  have "performWebSearch rt (searchParams cfg p) key =
        performWebSearch rt (searchParams cfg p') key" for key
    using assms(2) by (simp add: performWebSearch_def)
  with assms(1,3) show ?thesis
    by (simp add: execute_def cong: option.case_cong if_cong)
qed

lemma searchParams_engine_default:
  "defaultSearchEngine cfg = None \<or> defaultSearchEngine cfg = Some search_std \<Longrightarrow>
   searchParams cfg (p\<lparr>search_engine := Some search_std\<rparr>) =
   searchParams cfg (p\<lparr>search_engine := None\<rparr>)"
  by (auto simp: searchParams_def)

lemma searchParams_count_default:
  "defaultCount cfg = None \<or> defaultCount cfg = Some (Num 10) \<Longrightarrow>
   searchParams cfg (p\<lparr>count := Some (Num 10)\<rparr>) = searchParams cfg (p\<lparr>count := None\<rparr>)"
  by (auto simp: searchParams_def)

lemma requestBody_recency_default:
  "requestBody (searchParams cfg (p\<lparr>search_recency_filter := Some noLimit\<rparr>)) =
   requestBody (searchParams cfg (p\<lparr>search_recency_filter := None\<rparr>))"
  by (simp add: requestBody_def searchParams_def)

lemma requestBody_content_size_default:
  "requestBody (searchParams cfg (p\<lparr>content_size := Some medium\<rparr>)) =
   requestBody (searchParams cfg (p\<lparr>content_size := None\<rparr>))"
  by (simp add: requestBody_def searchParams_def)

text \<open>
  A response with a status outside 200 to 299 never makes \<^verbatim>\<open>performWebSearch\<close> return.
  The error carries the upstream message when \<^verbatim>\<open>error.message\<close> is a string, and
  \<^verbatim>\<open>HTTP\<close> with the status when the body is not JSON, or is a JSON value other than
  \<^verbatim>\<open>null\<close> whose \<^verbatim>\<open>error.message\<close> is absent or \<^verbatim>\<open>null\<close>.
\<close>

lemma performWebSearch_http_error_fails:
  assumes "fetch rt
             \<lparr>url = BIGMODEL_API_URL, http_method = ''POST'',
              headers = [(''Authorization'', ''Bearer '' @ key),
                         (''Content-Type'', ''application/json'')],
              body = requestBody params\<rparr> = Inr response"
    and "\<not> ok response"
  shows "\<exists>e. fst (performWebSearch rt params key) = Inl e"
  using assms
  by (auto simp: performWebSearch_def and_then_def Let_def split: sum.splits)

lemma performWebSearch_upstream_message:
  assumes "fetch rt
             \<lparr>url = BIGMODEL_API_URL, http_method = ''POST'',
              headers = [(''Authorization'', ''Bearer '' @ key),
                         (''Content-Type'', ''application/json'')],
              body = requestBody params\<rparr> = Inr response"
    and "\<not> ok response"
    and "json response = Inr errorData"
    and "get_prop errorData ''error'' = Inr err"
    and "opt_member err ''message'' = JStr m"
  shows "fst (performWebSearch rt params key) = Inl (Error (''BigModel API error: '' @ m))"
  using assms
  by (simp add: performWebSearch_def and_then_def Let_def)

lemma performWebSearch_status_fallback:
  assumes "fetch rt
             \<lparr>url = BIGMODEL_API_URL, http_method = ''POST'',
              headers = [(''Authorization'', ''Bearer '' @ key),
                         (''Content-Type'', ''application/json'')],
              body = requestBody params\<rparr> = Inr response"
    and "\<not> ok response"
    and "(\<exists>e. json response = Inl e) \<or>
         (\<exists>errorData err. json response = Inr errorData \<and>
            get_prop errorData ''error'' = Inr err \<and> nullish (opt_member err ''message''))"
  shows "fst (performWebSearch rt params key) =
           Inl (Error (''BigModel API error: HTTP '' @ show_nat (status response)))"
  using assms
  by (auto simp: performWebSearch_def and_then_def Let_def opt_member_def)

text \<open>The two examples of the specification.\<close>

lemma performWebSearch_401_bad_key:
  "fst (performWebSearch
          (answering \<lparr>status = 401,
                      json = Inr (JObj [(''error'', JObj [(''message'', JStr ''bad key'')])])\<rparr>)
          params key) = Inl (Error ''BigModel API error: bad key'')"
  by (simp add: performWebSearch_def answering_def ok_def and_then_def opt_member_def)

lemma performWebSearch_500_unparseable:
  "fst (performWebSearch
          (answering \<lparr>status = 500, json = Inl (SyntaxError ''Unexpected token'')\<rparr>)
          params key) = Inl (Error ''BigModel API error: HTTP 500'')"
  by (simp add: performWebSearch_def answering_def ok_def and_then_def opt_member_def
      show_nat_500)

section \<open>Configuration normalizer\<close>

text \<open>
  Claim C7, as the code has it. \<^verbatim>\<open>parse\<close> of \<^verbatim>\<open>index.ts\<close> returns the empty config for
  every value that is not a non-array object. For an object it keeps \<^verbatim>\<open>enabled\<close> exactly
  when it is a boolean, \<^verbatim>\<open>apiKey\<close> exactly when it is a string, \<^verbatim>\<open>defaultSearchEngine\<close>
  exactly when it is one of the four engine names, and \<^verbatim>\<open>defaultCount\<close> exactly when it
  is a number from 1 to 50 inclusive, whether it is an integer or not; a field that fails
  its check is absent. \<^verbatim>\<open>{apiKey: "x", defaultCount: 51}\<close> yields \<^verbatim>\<open>{apiKey: "x"}\<close>.
\<close>

theorem parse_projects_checked_fields:
  "((\<forall>raw. v \<noteq> JObj raw) \<longrightarrow> parse v = empty_config) \<and>
   (enabled (parse (JObj raw)) = Some b \<longleftrightarrow> map_of raw ''enabled'' = Some (JBool b)) \<and>
   (apiKey (parse (JObj raw)) = Some s \<longleftrightarrow> map_of raw ''apiKey'' = Some (JStr s)) \<and>
   (defaultSearchEngine (parse (JObj raw)) = Some e \<longleftrightarrow>
      map_of raw ''defaultSearchEngine'' = Some (JStr (engine_name e))) \<and>
   (defaultCount (parse (JObj raw)) = Some n \<longleftrightarrow>
      map_of raw ''defaultCount'' = Some (JNum n) \<and> num_ge n 1 \<and> num_le n 50) \<and>
   parse (JObj [(''apiKey'', JStr ''x''), (''defaultCount'', JNum (Num 51))]) =
     \<lparr>enabled = None, apiKey = Some ''x'', defaultSearchEngine = None, defaultCount = None\<rparr>"
proof (intro conjI)
  show "(\<forall>raw. v \<noteq> JObj raw) \<longrightarrow> parse v = empty_config"
    by (cases v) (simp_all add: parse_def)
  show "enabled (parse (JObj raw)) = Some b \<longleftrightarrow> map_of raw ''enabled'' = Some (JBool b)"
    by (auto simp: parse_def project_def split: option.splits jsval.splits)
  show "apiKey (parse (JObj raw)) = Some s \<longleftrightarrow> map_of raw ''apiKey'' = Some (JStr s)"
    by (auto simp: parse_def project_def split: option.splits jsval.splits)
  show "defaultSearchEngine (parse (JObj raw)) = Some e \<longleftrightarrow>
      map_of raw ''defaultSearchEngine'' = Some (JStr (engine_name e))"
    by (cases e) (auto simp: parse_def project_def split: option.splits jsval.splits if_splits)
  show "defaultCount (parse (JObj raw)) = Some n \<longleftrightarrow>
      map_of raw ''defaultCount'' = Some (JNum n) \<and> num_ge n 1 \<and> num_le n 50"
    by (auto simp: parse_def project_def split: option.splits jsval.splits if_splits)
  show "parse (JObj [(''apiKey'', JStr ''x''), (''defaultCount'', JNum (Num 51))]) =
     \<lparr>enabled = None, apiKey = Some ''x'', defaultSearchEngine = None, defaultCount = None\<rparr>"
    by (simp add: parse_def project_def)
qed

text \<open>The theorem at an array, which is not a plain object, and at the count 50.\<close>

theorem parse_projects_checked_fields_witness:
  "(\<forall>raw. JArr [] \<noteq> JObj raw) \<and> parse (JArr []) = empty_config \<and>
   defaultCount (parse (JObj [(''defaultCount'', JNum (Num 50))])) = Some (Num 50)"
  using parse_projects_checked_fields
          [of "JArr []" "[(''defaultCount'', JNum (Num 50))]" _ _ _ "Num 50"]
  by simp

text \<open>
  Claim C7 as stated asks for an integer count. \<^verbatim>\<open>parse\<close> tests
  \<^verbatim>\<open>typeof raw.defaultCount === "number"\<close> and the two bounds only: the count 1.5 is kept.
\<close>

theorem parse_keeps_fractional_count:
  "defaultCount (parse (JObj [(''defaultCount'', JNum (Num (3 / 2)))])) = Some (Num (3 / 2)) \<and>
   \<not> spec_count_ok (Num (3 / 2))"
  by (simp add: parse_def project_def)

text \<open>
  Claim C9. \<^verbatim>\<open>parse\<close> of \<^verbatim>\<open>index.js\<close>, the strict variant, throws exactly when the input
  is a non-array object with a key outside the four recognized names. \<^verbatim>\<open>parse\<close> of
  \<^verbatim>\<open>index.ts\<close> has no \<^verbatim>\<open>throw\<close>: it returns a config for every input, the one the strict
  variant returns whenever that one does not throw, and the one it returns for the object
  without its unknown keys.
\<close>

theorem parse_js_raises_iff_unknown_key:
  "((\<exists>e. parse_js v = Inl e) \<longleftrightarrow>
      (\<exists>raw. v = JObj raw \<and> (\<exists>k \<in> set (map fst raw). k \<notin> set allowedKeys))) \<and>
   ((\<forall>e. parse_js v \<noteq> Inl e) \<longrightarrow> parse_js v = Inr (parse v)) \<and>
   parse (JObj raw) = parse (JObj (filter (\<lambda>(k, x). k \<in> set allowedKeys) raw))"
proof (intro conjI)
  show "(\<exists>e. parse_js v = Inl e) \<longleftrightarrow>
      (\<exists>raw. v = JObj raw \<and> (\<exists>k \<in> set (map fst raw). k \<notin> set allowedKeys))"
    by (cases v) (auto simp: parse_js_def unknownKeys_def filter_empty_conv)
  show "(\<forall>e. parse_js v \<noteq> Inl e) \<longrightarrow> parse_js v = Inr (parse v)"
    by (simp add: parse_js_def parse_def)
  show "parse (JObj raw) = parse (JObj (filter (\<lambda>(k, x). k \<in> set allowedKeys) raw))"
    by (simp add: parse_def project_filter)
qed

text \<open>The theorem at \<^verbatim>\<open>{apiKey: "x", extra: null}\<close> and at \<^verbatim>\<open>{apiKey: "x"}\<close>.\<close>

theorem parse_js_raises_iff_unknown_key_witness:
  "(\<exists>e. parse_js (JObj [(''apiKey'', JStr ''x''), (''extra'', JNull)]) = Inl e) \<and>
   parse (JObj [(''apiKey'', JStr ''x''), (''extra'', JNull)]) =
     parse (JObj [(''apiKey'', JStr ''x'')]) \<and>
   (\<forall>e. parse_js (JObj [(''apiKey'', JStr ''x'')]) \<noteq> Inl e) \<and>
   parse_js (JObj [(''apiKey'', JStr ''x'')]) = Inr (parse (JObj [(''apiKey'', JStr ''x'')]))"
proof -
  have unknown: "\<exists>k \<in> set (map fst [(''apiKey'', JStr ''x''), (''extra'', JNull)]).
                   k \<notin> set allowedKeys"
    by (simp add: allowedKeys_def)
  have known: "\<not> (\<exists>raw. JObj [(''apiKey'', JStr ''x'')] = JObj raw \<and>
                  (\<exists>k \<in> set (map fst raw). k \<notin> set allowedKeys))"
    by (simp add: allowedKeys_def)
  show ?thesis
    using parse_js_raises_iff_unknown_key
            [of "JObj [(''apiKey'', JStr ''x''), (''extra'', JNull)]"
                "[(''apiKey'', JStr ''x''), (''extra'', JNull)]"]
          parse_js_raises_iff_unknown_key [of "JObj [(''apiKey'', JStr ''x'')]" "[]"]
          unknown known
    by (simp add: allowedKeys_def)
qed

section \<open>Result formatter\<close>

text \<open>
  Claim C5, as the code has it. \<^verbatim>\<open>formatSearchResults\<close> is a total function of the list.
  The empty list gives \<^verbatim>\<open>No search results found.\<close>; a non-empty list gives, in input
  order and numbered from 1, the blocks of its items joined by the separator, where a block
  is the title line, the \<^verbatim>\<open>Source:\<close> line when \<^verbatim>\<open>media\<close> is present and not the empty
  string, the \<^verbatim>\<open>Published:\<close> line when \<^verbatim>\<open>publish_date\<close> is present and not the empty
  string, the \<^verbatim>\<open>URL:\<close> line and the \<^verbatim>\<open>Content:\<close> line, joined by newlines. The single
  item \<^verbatim>\<open>{title: "T", content: "C", link: "L"}\<close> gives the three lines of the claim.
\<close>

theorem formatSearchResults_blocks:
  "formatSearchResults [] = ''No search results found.'' \<and>
   formatSearchResults items = spec_format present_nonempty items \<and>
   formatSearchResults
     [\<lparr>title = ''T'', content = ''C'', link = ''L'', media = None, icon = None,
       refer = None, publish_date = None\<rparr>] =
     ''[1] T'' @ NL @ ''URL: L'' @ NL @ ''Content: C''"
proof (intro conjI)
  show "formatSearchResults [] = ''No search results found.''"
    by (simp add: formatSearchResults_def)
  have "map (\<lambda>(index, result). join NL (parts index result)) (enumerate 0 items) =
        map (\<lambda>n. spec_block present_nonempty n (items ! (n - 1))) [1..<Suc (length items)]"
    unfolding enumerate_as_index
    by (rule map_cong) (simp_all add: parts_spec_block del: upt_Suc)
  then show "formatSearchResults items = spec_format present_nonempty items"
    by (simp add: formatSearchResults_def spec_format_def del: upt_Suc)
  show "formatSearchResults
     [\<lparr>title = ''T'', content = ''C'', link = ''L'', media = None, icon = None,
       refer = None, publish_date = None\<rparr>] =
     ''[1] T'' @ NL @ ''URL: L'' @ NL @ ''Content: C''"
    by (simp add: formatSearchResults_def parts_def show_nat_Suc_0 enumerate_eq_zip)
qed

text \<open>The theorem at two items, one with a source and one with a date.\<close>

theorem formatSearchResults_blocks_witness:
  "formatSearchResults
     [\<lparr>title = ''A'', content = ''a'', link = ''x'', media = Some ''M'', icon = None,
       refer = None, publish_date = None\<rparr>,
      \<lparr>title = ''B'', content = ''b'', link = ''y'', media = None, icon = None,
       refer = None, publish_date = Some ''D''\<rparr>] =
   ''[1] A'' @ NL @ ''Source: M'' @ NL @ ''URL: x'' @ NL @ ''Content: a'' @
   NL @ NL @ ''---'' @ NL @ NL @
   ''[2] B'' @ NL @ ''Published: D'' @ NL @ ''URL: y'' @ NL @ ''Content: b''"
  using formatSearchResults_blocks
          [of "[\<lparr>title = ''A'', content = ''a'', link = ''x'', media = Some ''M'', icon = None,
                 refer = None, publish_date = None\<rparr>,
                \<lparr>title = ''B'', content = ''b'', link = ''y'', media = None, icon = None,
                 refer = None, publish_date = Some ''D''\<rparr>]"]
  by (simp add: spec_format_def spec_block_def optional_line_def present_nonempty_def
      separator_def show_nat.simps digit_def)

text \<open>
  Claim C5 as stated emits the \<^verbatim>\<open>Source:\<close> line whenever \<^verbatim>\<open>media\<close> is present. For an
  item whose \<^verbatim>\<open>media\<close> is the empty string the code emits no such line.
\<close>

theorem formatSearchResults_empty_media_differs:
  "formatSearchResults
     [\<lparr>title = ''T'', content = ''C'', link = ''L'', media = Some [], icon = None,
       refer = None, publish_date = None\<rparr>] \<noteq>
   spec_format present
     [\<lparr>title = ''T'', content = ''C'', link = ''L'', media = Some [], icon = None,
       refer = None, publish_date = None\<rparr>]"
  by (simp add: formatSearchResults_def parts_def show_nat_Suc_0 enumerate_eq_zip
      spec_format_def spec_block_def optional_line_def present_def NL_def)

text \<open>
  Claim C10. An item whose \<^verbatim>\<open>media\<close> is the empty string is formatted as one without
  \<^verbatim>\<open>media\<close>, and likewise for \<^verbatim>\<open>publish_date\<close>: the \<^verbatim>\<open>Source:\<close> line is among the
  lines of an item exactly when \<^verbatim>\<open>media\<close> is a non-empty string, the \<^verbatim>\<open>Published:\<close>
  line exactly when \<^verbatim>\<open>publish_date\<close> is one. The code of \<^verbatim>\<open>index.js\<close> does the same on
  the JSON object of such an item.
\<close>

theorem empty_optional_fields_omitted:
  "parts i (r\<lparr>media := Some []\<rparr>) = parts i (r\<lparr>media := None\<rparr>) \<and>
   parts i (r\<lparr>publish_date := Some []\<rparr>) = parts i (r\<lparr>publish_date := None\<rparr>) \<and>
   ((\<exists>l \<in> set (parts i r). prefix ''Source: '' l) \<longleftrightarrow> (\<exists>m. media r = Some m \<and> m \<noteq> [])) \<and>
   ((\<exists>l \<in> set (parts i r). prefix ''Published: '' l) \<longleftrightarrow>
      (\<exists>d. publish_date r = Some d \<and> d \<noteq> [])) \<and>
   parts_js fmt i (item_json (r\<lparr>media := Some [], publish_date := Some []\<rparr>)) =
     Inr (parts i (r\<lparr>media := None, publish_date := None\<rparr>))"
proof (intro conjI)
  show "parts i (r\<lparr>media := Some []\<rparr>) = parts i (r\<lparr>media := None\<rparr>)"
    by (simp add: parts_def)
  show "parts i (r\<lparr>publish_date := Some []\<rparr>) = parts i (r\<lparr>publish_date := None\<rparr>)"
    by (simp add: parts_def)
  show "(\<exists>l \<in> set (parts i r). prefix ''Source: '' l) \<longleftrightarrow> (\<exists>m. media r = Some m \<and> m \<noteq> [])"
    by (cases "media r"; cases "publish_date r") (auto simp: parts_def)
  show "(\<exists>l \<in> set (parts i r). prefix ''Published: '' l) \<longleftrightarrow>
      (\<exists>d. publish_date r = Some d \<and> d \<noteq> [])"
    by (cases "media r"; cases "publish_date r") (auto simp: parts_def)
  show "parts_js fmt i (item_json (r\<lparr>media := Some [], publish_date := Some []\<rparr>)) =
     Inr (parts i (r\<lparr>media := None, publish_date := None\<rparr>))"
    by (simp add: parts_js_item_json parts_def)
qed

text \<open>The theorem at an item whose \<^verbatim>\<open>media\<close> and \<^verbatim>\<open>publish_date\<close> are both empty.\<close>

theorem empty_optional_fields_omitted_witness:
  "parts 0 \<lparr>title = ''T'', content = ''C'', link = ''L'', media = Some [], icon = None,
            refer = None, publish_date = Some []\<rparr> =
     [''[1] T'', ''URL: L'', ''Content: C''] \<and>
   \<not> (\<exists>l \<in> set (parts 0 \<lparr>title = ''T'', content = ''C'', link = ''L'', media = Some [],
                            icon = None, refer = None, publish_date = Some []\<rparr>).
         prefix ''Source: '' l)"
  using empty_optional_fields_omitted
          [of 0 "\<lparr>title = ''T'', content = ''C'', link = ''L'', media = Some [], icon = None,
                  refer = None, publish_date = Some []\<rparr>"]
  by (simp add: parts_def show_nat.simps digit_def)

section \<open>Search request executor\<close>

text \<open>
  Claim C3. For every \<open>params\<close> and key, \<^verbatim>\<open>performWebSearch\<close> sends one request, whose
  body has \<^verbatim>\<open>search_query\<close> = the query, \<^verbatim>\<open>search_engine\<close> = the given engine or
  \<^verbatim>\<open>search_std\<close>, \<^verbatim>\<open>search_intent\<close> = false, \<^verbatim>\<open>count\<close> = the given count or 10,
  \<^verbatim>\<open>search_recency_filter\<close> = the given filter or \<^verbatim>\<open>noLimit\<close>, \<^verbatim>\<open>content_size\<close> = the
  given size or \<^verbatim>\<open>medium\<close>, these six keys once each, and the key
  \<^verbatim>\<open>search_domain_filter\<close> exactly when the parameter is present and non-empty, then with
  its value.
\<close>

theorem performWebSearch_request_body:
  "\<exists>request. snd (performWebSearch rt params key) = [request] \<and>
     member (body request) ''search_query'' = JStr (query params) \<and>
     member (body request) ''search_engine'' =
       JStr (case search_engine params of Some e \<Rightarrow> engine_name e | None \<Rightarrow> ''search_std'') \<and>
     member (body request) ''search_intent'' = JBool False \<and>
     member (body request) ''count'' =
       JNum (case count params of Some n \<Rightarrow> n | None \<Rightarrow> Num 10) \<and>
     member (body request) ''search_recency_filter'' =
       JStr (case search_recency_filter params of
               Some f \<Rightarrow> recency_name f | None \<Rightarrow> ''noLimit'') \<and>
     member (body request) ''content_size'' =
       JStr (case content_size params of Some c \<Rightarrow> content_size_name c | None \<Rightarrow> ''medium'') \<and>
     (''search_domain_filter'' \<in> set (keys (body request)) \<longleftrightarrow>
        (\<exists>d. search_domain_filter params = Some d \<and> d \<noteq> [])) \<and>
     (\<forall>d. search_domain_filter params = Some d \<and> d \<noteq> [] \<longrightarrow>
        member (body request) ''search_domain_filter'' = JStr d) \<and>
     distinct (keys (body request)) \<and>
     set (keys (body request)) - {''search_domain_filter''} =
       {''search_query'', ''search_engine'', ''search_intent'', ''count'',
        ''search_recency_filter'', ''content_size''}"
  unfolding performWebSearch_sent
  by (cases "search_domain_filter params")
     (auto simp: requestBody_def split: option.splits)

text \<open>The theorem at a call with a count and a domain filter and no other option.\<close>

theorem performWebSearch_request_body_witness:
  "\<exists>request.
     snd (performWebSearch offline
            ((only_query ''isabelle'')
               \<lparr>count := Some (Num 5), search_domain_filter := Some ''example.com''\<rparr>)
            ''k'') = [request] \<and>
     body request =
       JObj [(''search_query'', JStr ''isabelle''), (''search_engine'', JStr ''search_std''),
             (''search_intent'', JBool False), (''count'', JNum (Num 5)),
             (''search_recency_filter'', JStr ''noLimit''), (''content_size'', JStr ''medium''),
             (''search_domain_filter'', JStr ''example.com'')] \<and>
     member (body request) ''search_domain_filter'' = JStr ''example.com''"
  using performWebSearch_request_body
          [of offline
              "(only_query ''isabelle'')
                 \<lparr>count := Some (Num 5), search_domain_filter := Some ''example.com''\<rparr>"
              "''k''"]
  by (simp add: performWebSearch_sent requestBody_def only_query_def)

text \<open>
  Claim C4 at the response \<^verbatim>\<open>500\<close> with the JSON body \<^verbatim>\<open>null\<close>. The body parses, so
  \<^verbatim>\<open>catch\<close> does not replace it; \<^verbatim>\<open>errorData.error\<close> then reads a property of
  \<^verbatim>\<open>null\<close>. \<^verbatim>\<open>performWebSearch\<close> fails with that \<^verbatim>\<open>TypeError\<close>, whose message holds
  neither an upstream message nor the status.
\<close>

theorem performWebSearch_null_error_body:
  "fst (performWebSearch (answering \<lparr>status = 500, json = Inr JNull\<rparr>) params key) =
     Inl (TypeError (''Cannot read properties of null (reading '' @ SQ @ ''error'' @ SQ @ '')'')) \<and>
   \<not> sublist ''500''
       (message
          (TypeError (''Cannot read properties of null (reading '' @ SQ @ ''error'' @ SQ @ '')'')))"
proof
  show "fst (performWebSearch (answering \<lparr>status = 500, json = Inr JNull\<rparr>) params key) =
     Inl (TypeError (''Cannot read properties of null (reading '' @ SQ @ ''error'' @ SQ @ '')''))"
    by (simp add: performWebSearch_def answering_def ok_def and_then_def)
  have "CHR ''5'' \<notin>
          set (''Cannot read properties of null (reading '' @ SQ @ ''error'' @ SQ @ '')'')"
    by (simp add: SQ_def)
  moreover have "CHR ''5'' \<in> set ''500''"
    by simp
  ultimately show "\<not> sublist ''500''
       (message
          (TypeError (''Cannot read properties of null (reading '' @ SQ @ ''error'' @ SQ @ '')'')))"
    using set_mono_sublist by fastforce
qed

section \<open>Tool invocation handler\<close>

text \<open>
  Claim C1. When the plugin config has no \<^verbatim>\<open>apiKey\<close> and \<^verbatim>\<open>BIGMODEL_API_KEY\<close> is unset,
  \<^verbatim>\<open>execute\<close> returns one non-empty text block with the details
  \<^verbatim>\<open>{error: true, message: "API key not configured"}\<close>, and sends no request:
  \<^verbatim>\<open>performWebSearch\<close>, which always sends one, is not called.
\<close>

theorem execute_without_key:
  assumes "apiKey cfg = None" and "env_BIGMODEL_API_KEY rt = None"
  shows "\<exists>t. t \<noteq> [] \<and>
           execute rt cfg i p =
             (Inr \<lparr>tool_result.content = [\<lparr>type' = ''text'', text' = t\<rparr>],
                   details = ErrorDetails True ''API key not configured''\<rparr>, [])"
  using assms by (simp add: execute_def no_key_result_def)

text \<open>The theorem at the empty config and an environment without the variable.\<close>

theorem execute_without_key_witness:
  "apiKey empty_config = None \<and> env_BIGMODEL_API_KEY offline = None \<and>
   (\<exists>t. t \<noteq> [] \<and>
      execute offline empty_config ''call-1'' (only_query ''isabelle'') =
      (Inr \<lparr>tool_result.content = [\<lparr>type' = ''text'', text' = t\<rparr>],
            details = ErrorDetails True ''API key not configured''\<rparr>, []))"
proof -
  have no_config_key: "apiKey empty_config = None"
    by (simp add: empty_config_def)
  have no_env_key: "env_BIGMODEL_API_KEY offline = None"
    by (simp add: offline_def)
  show ?thesis
    using no_config_key no_env_key execute_without_key [OF no_config_key no_env_key]
    by simp
qed

text \<open>
  Claim C2. For every runtime, config and invocation, \<^verbatim>\<open>execute\<close> settles to a result
  with one text block. The result is error-shaped, with \<^verbatim>\<open>error\<close> true and a message,
  unless the search call returned and its \<^verbatim>\<open>search_result\<close> was formatted. When the
  search call throws \<open>e\<close>, or returns a response that reading or formatting its
  \<^verbatim>\<open>search_result\<close> throws \<open>e\<close> on, the result is the text
  \<^verbatim>\<open>Error performing web search:\<close> with the message of \<open>e\<close> and the details
  \<^verbatim>\<open>{error: true, message}\<close>.
\<close>

theorem execute_never_raises:
  "\<exists>r. fst (execute rt cfg i p) = Inr r \<and>
     (\<exists>t. tool_result.content r = [\<lparr>type' = ''text'', text' = t\<rparr>]) \<and>
     ((\<exists>m. details r = ErrorDetails True m) \<or>
      (\<exists>key response results formatted n.
         (case apiKey cfg of Some k \<Rightarrow> Some k | None \<Rightarrow> env_BIGMODEL_API_KEY rt) = Some key \<and>
         key \<noteq> [] \<and>
         fst (performWebSearch rt (searchParams cfg p) key) = Inr response \<and>
         get_prop response ''search_result'' = Inr results \<and>
         formatSearchResults_js (number_format rt) results = Inr formatted \<and>
         details r = SearchDetails (query p) n (search_engine (searchParams cfg p)))) \<and>
     (\<forall>key e.
        (case apiKey cfg of Some k \<Rightarrow> Some k | None \<Rightarrow> env_BIGMODEL_API_KEY rt) = Some key \<and>
        key \<noteq> [] \<and>
        (fst (performWebSearch rt (searchParams cfg p) key) = Inl e \<or>
         (\<exists>response.
            fst (performWebSearch rt (searchParams cfg p) key) = Inr response \<and>
            and_then (get_prop response ''search_result'')
              (formatSearchResults_js (number_format rt)) = Inl e)) \<longrightarrow>
        r = \<lparr>tool_result.content =
               [\<lparr>type' = ''text'', text' = ''Error performing web search: '' @ message e\<rparr>],
             details = ErrorDetails True (message e)\<rparr>)"
proof (cases "case apiKey cfg of Some k \<Rightarrow> Some k | None \<Rightarrow> env_BIGMODEL_API_KEY rt")
  case None
  then show ?thesis
    by (simp add: execute_def no_key_result_def)
next
  case (Some key)
  show ?thesis
  proof (cases "key = []")
    case True
    with Some show ?thesis
      by (simp add: execute_def no_key_result_def)
  next
    case False
    obtain outcome sent where pw: "performWebSearch rt (searchParams cfg p) key = (outcome, sent)"
      by (cases "performWebSearch rt (searchParams cfg p) key")
    show ?thesis
    proof (cases outcome)
      case (Inl e)
      with Some False pw show ?thesis
        by (simp add: execute_def try_catch_def and_then_def)
    next
      case (Inr response)
      show ?thesis
      proof (cases "get_prop response ''search_result''")
        case (Inl e)
        with Some False pw Inr show ?thesis
          by (simp add: execute_def try_catch_def and_then_def)
      next
        case results: (Inr results)
        show ?thesis
        proof (cases "formatSearchResults_js (number_format rt) results")
          case (Inl e)
          with Some False pw Inr results show ?thesis
            by (simp add: execute_def try_catch_def and_then_def)
        next
          case formatted: (Inr formatted)
          then obtain n where "get_prop results ''length'' = Inr n"
            by (cases "get_prop results ''length''")
               (simp_all add: formatSearchResults_js_def and_then_def)
          with Some False pw Inr results formatted show ?thesis
            by (auto simp: execute_def try_catch_def and_then_def)
        qed
      qed
    qed
  qed
qed

text \<open>The theorem with a key configured and the network down.\<close>

theorem execute_never_raises_witness:
  "(case apiKey (empty_config\<lparr>apiKey := Some ''k''\<rparr>) of
      Some k \<Rightarrow> Some k | None \<Rightarrow> env_BIGMODEL_API_KEY offline) = Some ''k'' \<and>
   fst (performWebSearch offline
          (searchParams (empty_config\<lparr>apiKey := Some ''k''\<rparr>) (only_query ''q'')) ''k'') =
     Inl (TypeError ''fetch failed'') \<and>
   fst (execute offline (empty_config\<lparr>apiKey := Some ''k''\<rparr>) ''call-1'' (only_query ''q'')) =
     Inr \<lparr>tool_result.content =
            [\<lparr>type' = ''text'', text' = ''Error performing web search: fetch failed''\<rparr>],
          details = ErrorDetails True ''fetch failed''\<rparr>"
proof -
  have key:
    "(case apiKey (empty_config\<lparr>apiKey := Some ''k''\<rparr>) of
        Some k \<Rightarrow> Some k | None \<Rightarrow> env_BIGMODEL_API_KEY offline) = Some ''k''"
    by simp
  have fails:
    "fst (performWebSearch offline
            (searchParams (empty_config\<lparr>apiKey := Some ''k''\<rparr>) (only_query ''q'')) ''k'') =
       Inl (TypeError ''fetch failed'')"
    by (simp add: performWebSearch_def offline_def and_then_def)
  from execute_never_raises
         [of offline "empty_config\<lparr>apiKey := Some ''k''\<rparr>" "''call-1''" "only_query ''q''"]
  obtain r where
    returns: "fst (execute offline (empty_config\<lparr>apiKey := Some ''k''\<rparr>) ''call-1''
                (only_query ''q'')) = Inr r"
    and converts:
      "\<forall>key e.
        (case apiKey (empty_config\<lparr>apiKey := Some ''k''\<rparr>) of
           Some k \<Rightarrow> Some k | None \<Rightarrow> env_BIGMODEL_API_KEY offline) = Some key \<and>
        key \<noteq> [] \<and>
        (fst (performWebSearch offline
                (searchParams (empty_config\<lparr>apiKey := Some ''k''\<rparr>) (only_query ''q'')) key) =
           Inl e \<or>
         (\<exists>response.
            fst (performWebSearch offline
                   (searchParams (empty_config\<lparr>apiKey := Some ''k''\<rparr>) (only_query ''q''))
                   key) = Inr response \<and>
            and_then (get_prop response ''search_result'')
              (formatSearchResults_js (number_format offline)) = Inl e)) \<longrightarrow>
        r = \<lparr>tool_result.content =
               [\<lparr>type' = ''text'', text' = ''Error performing web search: '' @ message e\<rparr>],
             details = ErrorDetails True (message e)\<rparr>"
    by blast
  from converts key fails
  have "r = \<lparr>tool_result.content =
               [\<lparr>type' = ''text'',
                 text' = ''Error performing web search: '' @ message (TypeError ''fetch failed'')\<rparr>],
             details = ErrorDetails True (message (TypeError ''fetch failed''))\<rparr>"
    by blast
  with returns key fails show ?thesis
    by simp
qed

text \<open>
  Claim C6. Whenever \<^verbatim>\<open>execute\<close> has an API key, the request it sends carries as
  \<^verbatim>\<open>search_engine\<close> and \<^verbatim>\<open>count\<close> the invocation's value if present, else the plugin
  config's default if present, else \<^verbatim>\<open>search_std\<close> and 10; and the
  \<^verbatim>\<open>searchEngine\<close> of a successful result is that engine: the config default when the
  invocation names none.
\<close>

theorem execute_resolves_defaults:
  assumes "(case apiKey cfg of Some k \<Rightarrow> Some k | None \<Rightarrow> env_BIGMODEL_API_KEY rt) = Some key"
    and "key \<noteq> []"
  shows "\<exists>request. snd (execute rt cfg i p) = [request] \<and>
     member (body request) ''search_engine'' =
       JStr (engine_name
         (case search_engine p of
            Some e \<Rightarrow> e
          | None \<Rightarrow> (case defaultSearchEngine cfg of Some e \<Rightarrow> e | None \<Rightarrow> search_std))) \<and>
     member (body request) ''count'' =
       JNum (case count p of
               Some n \<Rightarrow> n
             | None \<Rightarrow> (case defaultCount cfg of Some n \<Rightarrow> n | None \<Rightarrow> Num 10)) \<and>
     (\<forall>r q n e. fst (execute rt cfg i p) = Inr r \<and> details r = SearchDetails q n e \<longrightarrow>
        e = Some (case search_engine p of
                    Some e \<Rightarrow> e
                  | None \<Rightarrow> (case defaultSearchEngine cfg of
                               Some e \<Rightarrow> e | None \<Rightarrow> search_std))) \<and>
     (\<forall>r q n e d. search_engine p = None \<and> defaultSearchEngine cfg = Some d \<and>
        fst (execute rt cfg i p) = Inr r \<and> details r = SearchDetails q n e \<longrightarrow> e = Some d)"
proof -
  have sent: "snd (execute rt cfg i p) =
     [\<lparr>url = BIGMODEL_API_URL, http_method = ''POST'',
       headers = [(''Authorization'', ''Bearer '' @ key),
                  (''Content-Type'', ''application/json'')],
       body = requestBody (searchParams cfg p)\<rparr>]"
    using assms by (simp add: execute_sent performWebSearch_sent)
  have engine: "search_engine (searchParams cfg p) =
      Some (case search_engine p of
              Some e \<Rightarrow> e
            | None \<Rightarrow> (case defaultSearchEngine cfg of Some e \<Rightarrow> e | None \<Rightarrow> search_std))"
    by (simp add: searchParams_def)
  have details_engine:
    "e = search_engine (searchParams cfg p)"
    if "fst (execute rt cfg i p) = Inr r" and "details r = SearchDetails q n e" for r q n e
    using that assms
    by (auto simp: execute_def try_catch_def and_then_def
        split: prod.splits sum.splits)
  show ?thesis
    unfolding sent
    using details_engine engine
    by (auto simp: requestBody_def searchParams_def split: option.splits)
qed

text \<open>
  The theorem with the default engine \<^verbatim>\<open>search_pro\<close> configured, no engine in the
  invocation, and a response without results.
\<close>

theorem execute_resolves_defaults_witness:
  "(case apiKey (empty_config\<lparr>apiKey := Some ''k'', defaultSearchEngine := Some search_pro\<rparr>) of
      Some k \<Rightarrow> Some k | None \<Rightarrow> env_BIGMODEL_API_KEY (answering no_results)) = Some ''k'' \<and>
   fst (execute (answering no_results)
          (empty_config\<lparr>apiKey := Some ''k'', defaultSearchEngine := Some search_pro\<rparr>)
          ''call-1'' (only_query ''q'')) =
     Inr \<lparr>tool_result.content =
            [\<lparr>type' = ''text'',
              text' = ''## Web Search Results for: '' @ DQ @ ''q'' @ DQ @ NL @ NL @
                      ''No search results found.''\<rparr>],
          details = SearchDetails ''q'' (JNum (Num 0)) (Some search_pro)\<rparr> \<and>
   (\<exists>request.
      snd (execute (answering no_results)
             (empty_config\<lparr>apiKey := Some ''k'', defaultSearchEngine := Some search_pro\<rparr>)
             ''call-1'' (only_query ''q'')) = [request] \<and>
      member (body request) ''search_engine'' = JStr ''search_pro'' \<and>
      member (body request) ''count'' = JNum (Num 10))"
proof -
  have key:
    "(case apiKey (empty_config\<lparr>apiKey := Some ''k'', defaultSearchEngine := Some search_pro\<rparr>) of
        Some k \<Rightarrow> Some k | None \<Rightarrow> env_BIGMODEL_API_KEY (answering no_results)) = Some ''k''"
    by simp
  have nonempty: "''k'' \<noteq> []"
    by simp
  have result:
    "fst (execute (answering no_results)
          (empty_config\<lparr>apiKey := Some ''k'', defaultSearchEngine := Some search_pro\<rparr>)
          ''call-1'' (only_query ''q'')) =
     Inr \<lparr>tool_result.content =
            [\<lparr>type' = ''text'',
              text' = ''## Web Search Results for: '' @ DQ @ ''q'' @ DQ @ NL @ NL @
                      ''No search results found.''\<rparr>],
          details = SearchDetails ''q'' (JNum (Num 0)) (Some search_pro)\<rparr>"
    by (simp add: execute_def performWebSearch_def answering_def no_results_def ok_def
        and_then_def try_catch_def formatSearchResults_js_def searchParams_def only_query_def
        empty_config_def)
  show ?thesis
    using key result
      execute_resolves_defaults [OF key nonempty, of "''call-1''" "only_query ''q''"]
    by (simp add: only_query_def empty_config_def)
qed

text \<open>
  Claim C8, as the code has it. Giving \<^verbatim>\<open>search_recency_filter\<close> as \<^verbatim>\<open>noLimit\<close> or
  \<^verbatim>\<open>content_size\<close> as \<^verbatim>\<open>medium\<close> gives the output (result and requests) of omitting
  it. Giving \<^verbatim>\<open>search_engine\<close> as \<^verbatim>\<open>search_std\<close> does when the plugin config sets no
  default engine or sets \<^verbatim>\<open>search_std\<close>, and giving \<^verbatim>\<open>count\<close> as 10 when it sets no
  default count or sets 10; so do all four together under both conditions. In
  \<^verbatim>\<open>performWebSearch\<close>, which does not see the plugin config, each of the four holds
  without condition.
\<close>

theorem explicit_defaults_same_as_omitted:
  "((defaultSearchEngine cfg = None \<or> defaultSearchEngine cfg = Some search_std) \<and>
    (defaultCount cfg = None \<or> defaultCount cfg = Some (Num 10)) \<longrightarrow>
      execute rt cfg i
        (p\<lparr>search_engine := Some search_std, count := Some (Num 10),
           search_recency_filter := Some noLimit, content_size := Some medium\<rparr>) =
      execute rt cfg i
        (p\<lparr>search_engine := None, count := None, search_recency_filter := None,
           content_size := None\<rparr>)) \<and>
   (defaultSearchEngine cfg = None \<or> defaultSearchEngine cfg = Some search_std \<longrightarrow>
      execute rt cfg i (p\<lparr>search_engine := Some search_std\<rparr>) =
      execute rt cfg i (p\<lparr>search_engine := None\<rparr>)) \<and>
   (defaultCount cfg = None \<or> defaultCount cfg = Some (Num 10) \<longrightarrow>
      execute rt cfg i (p\<lparr>count := Some (Num 10)\<rparr>) =
      execute rt cfg i (p\<lparr>count := None\<rparr>)) \<and>
   execute rt cfg i (p\<lparr>search_recency_filter := Some noLimit\<rparr>) =
     execute rt cfg i (p\<lparr>search_recency_filter := None\<rparr>) \<and>
   execute rt cfg i (p\<lparr>content_size := Some medium\<rparr>) =
     execute rt cfg i (p\<lparr>content_size := None\<rparr>) \<and>
   performWebSearch rt (p\<lparr>search_engine := Some search_std\<rparr>) key =
     performWebSearch rt (p\<lparr>search_engine := None\<rparr>) key \<and>
   performWebSearch rt (p\<lparr>count := Some (Num 10)\<rparr>) key =
     performWebSearch rt (p\<lparr>count := None\<rparr>) key \<and>
   performWebSearch rt (p\<lparr>search_recency_filter := Some noLimit\<rparr>) key =
     performWebSearch rt (p\<lparr>search_recency_filter := None\<rparr>) key \<and>
   performWebSearch rt (p\<lparr>content_size := Some medium\<rparr>) key =
     performWebSearch rt (p\<lparr>content_size := None\<rparr>) key"
proof (intro conjI impI)
  assume "(defaultSearchEngine cfg = None \<or> defaultSearchEngine cfg = Some search_std) \<and>
    (defaultCount cfg = None \<or> defaultCount cfg = Some (Num 10))"
  then show "execute rt cfg i
        (p\<lparr>search_engine := Some search_std, count := Some (Num 10),
           search_recency_filter := Some noLimit, content_size := Some medium\<rparr>) =
      execute rt cfg i
        (p\<lparr>search_engine := None, count := None, search_recency_filter := None,
           content_size := None\<rparr>)"
    by (intro execute_depends_on) (auto simp: requestBody_def searchParams_def)
next
  assume "defaultSearchEngine cfg = None \<or> defaultSearchEngine cfg = Some search_std"
  then show "execute rt cfg i (p\<lparr>search_engine := Some search_std\<rparr>) =
      execute rt cfg i (p\<lparr>search_engine := None\<rparr>)"
    by (intro execute_depends_on) (simp_all add: searchParams_engine_default)
next
  assume "defaultCount cfg = None \<or> defaultCount cfg = Some (Num 10)"
  then show "execute rt cfg i (p\<lparr>count := Some (Num 10)\<rparr>) =
      execute rt cfg i (p\<lparr>count := None\<rparr>)"
    by (intro execute_depends_on) (simp_all add: searchParams_count_default)
next
  show "execute rt cfg i (p\<lparr>search_recency_filter := Some noLimit\<rparr>) =
     execute rt cfg i (p\<lparr>search_recency_filter := None\<rparr>)"
    by (intro execute_depends_on)
       (simp_all add: requestBody_recency_default, simp add: searchParams_def)
next
  show "execute rt cfg i (p\<lparr>content_size := Some medium\<rparr>) =
     execute rt cfg i (p\<lparr>content_size := None\<rparr>)"
    by (intro execute_depends_on)
       (simp_all add: requestBody_content_size_default, simp add: searchParams_def)
qed (simp_all add: performWebSearch_def requestBody_def)

text \<open>The theorem at a config that sets a key and no default.\<close>

theorem explicit_defaults_same_as_omitted_witness:
  "(defaultSearchEngine (empty_config\<lparr>apiKey := Some ''k''\<rparr>) = None \<or>
    defaultSearchEngine (empty_config\<lparr>apiKey := Some ''k''\<rparr>) = Some search_std) \<and>
   (defaultCount (empty_config\<lparr>apiKey := Some ''k''\<rparr>) = None \<or>
    defaultCount (empty_config\<lparr>apiKey := Some ''k''\<rparr>) = Some (Num 10)) \<and>
   execute (answering no_results) (empty_config\<lparr>apiKey := Some ''k''\<rparr>) ''call-1''
     ((only_query ''q'')\<lparr>search_engine := Some search_std\<rparr>) =
   execute (answering no_results) (empty_config\<lparr>apiKey := Some ''k''\<rparr>) ''call-1''
     ((only_query ''q'')\<lparr>search_engine := None\<rparr>) \<and>
   execute (answering no_results) (empty_config\<lparr>apiKey := Some ''k''\<rparr>) ''call-1''
     ((only_query ''q'')\<lparr>count := Some (Num 10)\<rparr>) =
   execute (answering no_results) (empty_config\<lparr>apiKey := Some ''k''\<rparr>) ''call-1''
     ((only_query ''q'')\<lparr>count := None\<rparr>)"
proof -
  have engine: "defaultSearchEngine (empty_config\<lparr>apiKey := Some ''k''\<rparr>) = None \<or>
    defaultSearchEngine (empty_config\<lparr>apiKey := Some ''k''\<rparr>) = Some search_std"
    by (simp add: empty_config_def)
  have count: "defaultCount (empty_config\<lparr>apiKey := Some ''k''\<rparr>) = None \<or>
    defaultCount (empty_config\<lparr>apiKey := Some ''k''\<rparr>) = Some (Num 10)"
    by (simp add: empty_config_def)
  show ?thesis
    using engine count
      explicit_defaults_same_as_omitted
        [of "empty_config\<lparr>apiKey := Some ''k''\<rparr>" "answering no_results" "''call-1''"
            "only_query ''q''"]
    by blast
qed

text \<open>
  Claim C8 as stated fails where the plugin config sets another default engine: with
  \<^verbatim>\<open>defaultSearchEngine\<close> = \<^verbatim>\<open>search_pro\<close>, an invocation that omits the engine searches
  with \<^verbatim>\<open>search_pro\<close> and one that gives \<^verbatim>\<open>search_std\<close> searches with \<^verbatim>\<open>search_std\<close>:
  the results differ and the requests differ.
\<close>

theorem explicit_default_engine_overrides_config:
  "fst (execute (answering no_results)
          (empty_config\<lparr>apiKey := Some ''k'', defaultSearchEngine := Some search_pro\<rparr>)
          ''call-1'' ((only_query ''q'')\<lparr>search_engine := Some search_std\<rparr>)) \<noteq>
   fst (execute (answering no_results)
          (empty_config\<lparr>apiKey := Some ''k'', defaultSearchEngine := Some search_pro\<rparr>)
          ''call-1'' ((only_query ''q'')\<lparr>search_engine := None\<rparr>)) \<and>
   snd (execute (answering no_results)
          (empty_config\<lparr>apiKey := Some ''k'', defaultSearchEngine := Some search_pro\<rparr>)
          ''call-1'' ((only_query ''q'')\<lparr>search_engine := Some search_std\<rparr>)) \<noteq>
   snd (execute (answering no_results)
          (empty_config\<lparr>apiKey := Some ''k'', defaultSearchEngine := Some search_pro\<rparr>)
          ''call-1'' ((only_query ''q'')\<lparr>search_engine := None\<rparr>))"
  by (simp add: execute_def performWebSearch_def answering_def no_results_def ok_def
      and_then_def try_catch_def formatSearchResults_js_def searchParams_def only_query_def
      empty_config_def requestBody_def)

end
